theory Spec2Isabelle
  imports Complex_Main "HOL-Library.Word"
begin

section \<open>JavaScript strings\<close>

text \<open>
  A JavaScript string is a sequence of UTF-16 code units. String literals of the source
  are written with \<open>js\<close> for their ASCII runs and as explicit code units elsewhere
  (accented letters, quotes, surrogate pairs of emoji).
\<close>

type_synonym jsstring = "16 word list"

definition js :: "string \<Rightarrow> jsstring" where
  "js s = map of_char s"

definition nl :: jsstring where
  "nl = [0x0A]"

text \<open>
  \<open>String.prototype.trim\<close> removes leading and trailing WhiteSpace and LineTerminator
  code units (ECMA-262: TAB, VT, FF, SP, NBSP, ZWNBSP, the Unicode space separators, LF,
  CR, LS, PS).
\<close>

definition isWhiteSpace :: "16 word \<Rightarrow> bool" where
  "isWhiteSpace c \<longleftrightarrow>
     List.member [0x09, 0x0A, 0x0B, 0x0C, 0x0D, 0x20, 0xA0, 0x1680, 0x2028, 0x2029,
                  0x202F, 0x205F, 0x3000, 0xFEFF] c
     \<or> (0x2000 \<le> c \<and> c \<le> 0x200A)"

definition trim :: "jsstring \<Rightarrow> jsstring" where
  "trim s = rev (dropWhile isWhiteSpace (rev (dropWhile isWhiteSpace s)))"

text \<open>\<open>s.includes(search)\<close>: \<open>search\<close> occurs in \<open>s\<close> as a contiguous run.\<close>

fun str_includes :: "jsstring \<Rightarrow> jsstring \<Rightarrow> bool" where
  "str_includes [] search = (search = [])"
| "str_includes (c # s) search =
     (take (length search) (c # s) = search \<or> str_includes s search)"

text \<open>
  \<open>x || fallback\<close> on a value of type \<open>string | undefined\<close>: \<open>undefined\<close> and the
  empty string are falsy.
\<close>

definition orElse :: "jsstring option \<Rightarrow> jsstring \<Rightarrow> jsstring" where
  "orElse x fallback =
     (case x of None \<Rightarrow> fallback | Some s \<Rightarrow> if s = [] then fallback else s)"

text \<open>
  A template placeholder \<open>${x}\<close> for an optional parameter: \<open>undefined\<close> is rendered
  as the text "undefined".
\<close>

definition interpolate :: "jsstring option \<Rightarrow> jsstring" where
  "interpolate x = (case x of None \<Rightarrow> js ''undefined'' | Some s \<Rightarrow> s)"

section \<open>The AI gateway\<close>

text \<open>
  \<open>ai.models.generateContent\<close> is the only external call of the service. A request
  carries the model name, the contents in one of the three shapes the source uses, and
  the tools of its config (none when the source passes no config). A response is read
  through \<open>response.text\<close> and \<open>response.candidates?.[0]?.content?.parts\<close>; every
  optional member is an \<open>option\<close>, the \<open>data\<close> of an inline blob included: a part
  may carry an \<open>inlineData\<close> object whose \<open>data\<close> is absent or empty. The call
  either rejects with an error or resolves with a response.
\<close>

datatype error = Error jsstring

record Blob =
  mimeType :: "jsstring option"
  blob_data :: "jsstring option"

record Part =
  part_text :: "jsstring option"
  inlineData :: "Blob option"

record Content =
  role :: "jsstring option"
  parts :: "Part list option"

datatype ContentUnion = ContentString jsstring | ContentList "Content list" | ContentObject Content

datatype Tool = GoogleSearch

record GenerateContentParameters =
  model :: jsstring
  contents :: ContentUnion
  tools :: "Tool list"

record Candidate =
  content :: "Content option"

record GenerateContentResponse =
  response_text :: "jsstring option"
  candidates :: "Candidate list option"

type_synonym gateway = "GenerateContentParameters \<Rightarrow> error + GenerateContentResponse"

text \<open>
  The module reads its API key once (\<open>process.env.API_KEY || ''\<close>) and builds one
  client from it. \<open>toLowerCase\<close> and \<open>normalize('NFD')\<close> are the host's Unicode
  tables; they are parameters of the model.
\<close>

record env =
  apiKey :: jsstring
  generateContent :: gateway
  toLowerCase :: "jsstring \<Rightarrow> jsstring"
  normalizeNFD :: "jsstring \<Rightarrow> jsstring"

text \<open>
  An asynchronous operation is modelled by its settled value (\<open>Inl\<close> a rejection,
  \<open>Inr\<close> a resolution) paired with the gateway requests it issued, in the order in
  which they were started.
\<close>

definition textPart :: "jsstring \<Rightarrow> Part" where
  "textPart t = \<lparr>part_text = Some t, inlineData = None\<rparr>"

definition jpegPart :: "jsstring \<Rightarrow> Part" where
  "jpegPart imageBase64 =
     \<lparr>part_text = None,
      inlineData = Some \<lparr>mimeType = Some (js ''image/jpeg''), blob_data = Some imageBase64\<rparr>\<rparr>"

section \<open>Campaign data\<close>

text \<open>
  The wizard keeps the product image as \<open>string | null\<close>; \<open>generateCampaign\<close>
  receives the same fields with the image as a \<open>string\<close>. The record is parametric in
  the type of the image. \<open>dynamicQuestion\<close> is nullable in the wizard and is passed on
  as it is.
\<close>

record 'img campaign_data =
  productImage :: 'img
  description :: jsstring
  dynamicQuestion :: "jsstring option"
  dynamicAnswer :: jsstring
  price :: jsstring
  contactPhone :: jsstring
  delivery :: bool
  location :: jsstring

text \<open>
  \<open>AdGenerationResult\<close> declares four strings. The banners are what
  \<open>generateBanner\<close> returns, and that is \<open>part.inlineData.data\<close>, which may be
  \<open>undefined\<close>: a banner of the service is a \<open>jsstring option\<close>. The wizard keeps
  \<open>string | null\<close> in all four fields.
\<close>

record ('copy, 'banner) ad_result =
  copy :: 'copy
  bannerSquare :: 'banner
  bannerStory :: 'banner
  bannerDesign :: 'banner

type_synonym AdGenerationResult = "(jsstring, jsstring option) ad_result"

section \<open>Prompts\<close>

definition followUpPrompt :: "jsstring \<Rightarrow> jsstring" where
  "followUpPrompt description' =
     nl @
     js ''      Voc'' @ [0xEA] @ js '' '' @ [0xE9] @ js '' um especialista em vendas.'' @ nl @
     js ''      Produto: '' @ [0x22] @ description' @ [0x22] @ js ''.'' @ nl @
     js ''      '' @ nl @
     js ''      Analise a descri'' @ [0xE7, 0xE3] @ js ''o e a imagem. Crie UMA '' @ [0xDA] @ js ''NICA pergunta curta para descobrir um detalhe t'' @ [0xE9] @ js ''cnico essencial que falta (ex: sabores, voltagem, marca).'' @ nl @
     js ''      Retorne APENAS a pergunta.'' @ nl @
     js ''    ''"

definition trendPrompt :: "jsstring \<Rightarrow> jsstring" where
  "trendPrompt description' =
     nl @
     js ''                Primeiro, identifique o produto principal nesta descri'' @ [0xE7, 0xE3] @ js ''o: '' @ [0x22] @ description' @ [0x22] @ js ''.'' @ nl @
     js ''                Em seguida, pesquise no Google EXATAMENTE com a query: '' @ [0x22] @ js ''post [PRODUTO] site:designi.com.br'' @ [0x22] @ nl @
     js ''                (Exemplo: se for bolo, pesquise '' @ [0x22] @ js ''post bolo de pote site:designi.com.br'' @ [0x22] @ js '')'' @ nl @
     nl @
     js ''                Analise os snippets e t'' @ [0xED] @ js ''tulos dos resultados para identificar o estilo visual (cores, fundos, elementos) que est'' @ [0xE1] @ js '' em alta no Designi.'' @ nl @
     js ''                '' @ nl @
     js ''                Retorne APENAS um par'' @ [0xE1] @ js ''grafo curto de '' @ [0x22] @ js ''Dire'' @ [0xE7, 0xE3] @ js ''o de Arte'' @ [0x22] @ js '' t'' @ [0xE9] @ js ''cnica para um designer recriar esse estilo:'' @ nl @
     js ''                1. Paleta de cores.'' @ nl @
     js ''                2. Ilumina'' @ [0xE7, 0xE3] @ js ''o/Fundo.'' @ nl @
     js ''                3. Elementos chave.'' @ nl @
     js ''            ''"

definition copyPrompt :: "'img campaign_data \<Rightarrow> jsstring" where
  "copyPrompt input =
     nl @
     js ''    Crie UM '' @ [0xDA] @ js ''NICO texto de an'' @ [0xFA] @ js ''ncio curto e direto para Facebook/OLX.'' @ nl @
     js ''    Foco: Venda r'' @ [0xE1] @ js ''pida, urg'' @ [0xEA] @ js ''ncia e clareza. Nada de enrola'' @ [0xE7, 0xE3] @ js ''o.'' @ nl @
     js ''    '' @ nl @
     js ''    Produto: '' @ description input @ nl @
     js ''    Detalhes: '' @ dynamicAnswer input @ nl @
     js ''    Pre'' @ [0xE7] @ js ''o: '' @ price input @ nl @
     js ''    Local: '' @ location input @ nl @
     js ''    Entrega: '' @ (if delivery input then js ''Sim'' else js ''N'' @ [0xE3] @ js ''o'') @ nl @
     js ''    Zap: '' @ contactPhone input @ nl @
     js ''    '' @ nl @
     js ''    Formato Obrigat'' @ [0xF3] @ js ''rio:'' @ nl @
     js ''    [Headline Curta e Impactante]'' @ nl @
     js ''    '' @ nl @
     js ''    [3 Bullet points com os principais benef'' @ [0xED] @ js ''cios/detalhes]'' @ nl @
     js ''    '' @ nl @
     js ''    '' @ [0xD83D, 0xDCB0] @ js '' Apenas '' @ price input @ nl @
     js ''    '' @ [0xD83D, 0xDCCD] @ js '' '' @ location input @ js '' | '' @ [0xD83D, 0xDE9A] @ js '' '' @ (if delivery input then js ''Entregamos'' else js ''Retirada'') @ nl @
     js ''    '' @ [0xD83D, 0xDCF2] @ js '' Chame agora: '' @ contactPhone input @ nl @
     js ''    '' @ nl @
     js ''    Sem hashtags. Sem introdu'' @ [0xE7, 0xE3] @ js ''o.'' @ nl @
     js ''  ''"

definition cleanSquarePrompt :: "jsstring \<Rightarrow> jsstring" where
  "cleanSquarePrompt description' =
     nl @
     js ''              Edit this product image to look like a high-end e-commerce photo.'' @ nl @
     js ''              Ratio: 1:1 Square.'' @ nl @
     js ''              Action: Remove background distractions, improve lighting, make the product pop. '' @ nl @
     js ''              Background: Clean, neutral, professional studio setting appropriate for: '' @ [0x22] @ description' @ [0x22] @ js ''.'' @ nl @
     js ''              No text overlay.'' @ nl @
     js ''            ''"

definition cleanStoryPrompt :: "jsstring" where
  "cleanStoryPrompt =
     nl @
     js ''              Edit this product image for an Instagram Story background.'' @ nl @
     js ''              Ratio: 9:16 Vertical.'' @ nl @
     js ''              Action: Center the product, extend the background seamlessly top and bottom.'' @ nl @
     js ''              Style: Aesthetic, clean, minimalist.'' @ nl @
     js ''              No text overlay.'' @ nl @
     js ''            ''"

definition boloPotePrompt :: "jsstring option \<Rightarrow> jsstring option \<Rightarrow> jsstring" where
  "boloPotePrompt contactInfo price' =
     nl @
     js ''                    Act as a Senior Art Director. '' @ nl @
     js ''                    Task: Create a promotional ad for '' @ [0x22] @ js ''Bolo de Pote'' @ [0x22] @ js '' (Cake in a Jar) following a STRICT BRAND TEMPLATE.'' @ nl @
     nl @
     js ''                    [BRAND VISUAL IDENTITY - '' @ [0x22] @ js ''Bolo de Pote V1'' @ [0x22] @ js '']'' @ nl @
     js ''                    - Background: Deep Burgundy/Wine Red texture (rich, premium, romantic).'' @ nl @
     js ''                    - Elements: 3D Glossy Hearts (Rose Gold/Pink) floating in the background with depth of field.'' @ nl @
     js ''                    - Base: A rustic beige jute/burlap fabric mat where the product sits.'' @ nl @
     js ''                    - Props: Fresh, vibrant red strawberries scattered near the base of the jar.'' @ nl @
     js ''                    - Badge: A gold seal/sticker on the left side.'' @ nl @
     nl @
     js ''                    [PRODUCT INTEGRATION]'' @ nl @
     js ''                    - Input Image: Use the cake jar from the provided image.'' @ nl @
     js ''                    - Action: Place the jar centrally on the jute mat. Enhance its layers to look delicious and creamy. Lighting should be soft and warm.'' @ nl @
     nl @
     js ''                    [TEXT OVERLAY - RENDER THIS TEXT CLEARLY]'' @ nl @
     js ''                    - Top Title: '' @ [0x22] @ js ''Experimente nosso'' @ [0x22] @ js '' (Small, Elegant Serif, White)'' @ nl @
     js ''                    - Main Title: '' @ [0x22] @ js ''Bolo de Pote'' @ [0x22] @ js '' (Large, Elegant Serif, White/Cream)'' @ nl @
     js ''                    - Call to Action: '' @ [0x22] @ js ''PE'' @ [0xC7] @ js ''A J'' @ [0xC1] @ js ''! '' @ interpolate contactInfo @ [0x22] @ js '' (Bottom, Bold, White)'' @ nl @
     js ''                    - Price Tag (if fits): '' @ [0x22] @ interpolate price' @ [0x22] @ nl @
     nl @
     js ''                    Ensure the final image looks like a high-end confectionery flyer.'' @ nl @
     js ''                ''"

definition genericDesignPrompt :: "jsstring option \<Rightarrow> jsstring option \<Rightarrow> jsstring option \<Rightarrow> jsstring" where
  "genericDesignPrompt contactInfo price' designTrend =
     nl @
     js ''                  Act as a Senior Art Director. Create a high-conversion social media ad.'' @ nl @
     nl @
     js ''                  [INPUT PRODUCT]'' @ nl @
     js ''                  Keep the product from the image exactly as is, but enhance sharpness and lighting.'' @ nl @
     nl @
     js ''                  [ART DIRECTION & TRENDS]'' @ nl @
     js ''                  Apply this specific visual style found in top-performing ads for this niche:'' @ nl @
     js ''                  '' @ [0x22] @ interpolate designTrend @ [0x22] @ nl @
     nl @
     js ''                  [CORE PRINCIPLES]'' @ nl @
     js ''                  - Lighting: Key light (softbox) + Rim light (backlight) for 3D separation. NO flat lighting.'' @ nl @
     js ''                  - Composition: Leave negative space for text. Clean, no clutter.'' @ nl @
     js ''                  - Quality: 8k, Octane Render style, Commercial Photography.'' @ nl @
     nl @
     js ''                  [TEXT OVERLAY]'' @ nl @
     js ''                  Integrate these details naturally into the composition (do not cover the product):'' @ nl @
     js ''                  - Price: '' @ [0x22] @ interpolate price' @ [0x22] @ nl @
     js ''                  - Contact: '' @ [0x22] @ interpolate contactInfo @ [0x22] @ nl @
     nl @
     js ''                  Make it look like a paid template from Designi or Canva.'' @ nl @
     js ''                ''"

section \<open>generateFollowUpQuestion\<close>

definition followUpRequest :: "jsstring \<Rightarrow> jsstring \<Rightarrow> GenerateContentParameters" where
  "followUpRequest description' imageBase64 =
     \<lparr>model = js ''gemini-3-flash-preview'',
      contents = ContentList
        [\<lparr>role = Some (js ''user''),
          parts = Some [textPart (followUpPrompt description'), jpegPart imageBase64]\<rparr>],
      tools = []\<rparr>"

definition emptyResultQuestion :: jsstring where
  "emptyResultQuestion =
     js ''Quais s'' @ [0xE3] @ js ''o as varia'' @ [0xE7, 0xF5] @ js ''es ou modelos dispon'' @ [0xED] @ js ''veis?''"

definition errorQuestion :: jsstring where
  "errorQuestion =
     js ''Poderia dar mais detalhes t'' @ [0xE9] @ js ''cnicos sobre o produto?''"

definition apiKeyMissing :: error where
  "apiKeyMissing = Error (js ''API Key missing'')"

definition generateFollowUpQuestion ::
  "env \<Rightarrow> jsstring \<Rightarrow> jsstring \<Rightarrow> (error + jsstring) \<times> GenerateContentParameters list" where
  "generateFollowUpQuestion e description' imageBase64 =
     (if apiKey e = [] then (Inl apiKeyMissing, [])
      else
        let req = followUpRequest description' imageBase64 in
        (case generateContent e req of
           Inr response \<Rightarrow>
             (Inr (orElse (map_option trim (response_text response)) emptyResultQuestion), [req])
         | Inl err \<Rightarrow> (Inr errorQuestion, [req])))"

section \<open>getDesignTrends\<close>

definition TEMPLATE_BOLO_POTE_V1 :: jsstring where
  "TEMPLATE_BOLO_POTE_V1 = js ''TEMPLATE_BOLO_POTE_V1''"

definition isCombiningMark :: "16 word \<Rightarrow> bool" where
  "isCombiningMark c \<longleftrightarrow> 0x0300 \<le> c \<and> c \<le> 0x036F"

definition normalizeDesc :: "env \<Rightarrow> jsstring \<Rightarrow> jsstring" where
  "normalizeDesc e description' =
     filter (\<lambda>c. \<not> isCombiningMark c) (normalizeNFD e (toLowerCase e description'))"

definition trendRequest :: "jsstring \<Rightarrow> GenerateContentParameters" where
  "trendRequest description' =
     \<lparr>model = js ''gemini-3-flash-preview'',
      contents = ContentString (trendPrompt description'),
      tools = [GoogleSearch]\<rparr>"

definition emptyTrend :: jsstring where
  "emptyTrend =
     js ''Estilo moderno, clean, fundo s'' @ [0xF3] @ js ''lido e ilumina'' @ [0xE7, 0xE3] @ js ''o de est'' @ [0xFA] @ js ''dio.''"

definition errorTrend :: jsstring where
  "errorTrend =
     js ''Estilo comercial high-end, ilumina'' @ [0xE7, 0xE3] @ js ''o de est'' @ [0xFA] @ js ''dio profissional, fundo neutro.''"

definition getDesignTrends :: "env \<Rightarrow> jsstring \<Rightarrow> jsstring \<times> GenerateContentParameters list" where
  "getDesignTrends e description' =
     (let normalizedDesc = normalizeDesc e description' in
      if str_includes normalizedDesc (js ''bolo de pote'')
         \<or> str_includes normalizedDesc (js ''bolo no pote'')
      then (TEMPLATE_BOLO_POTE_V1, [])
      else
        let req = trendRequest description' in
        (case generateContent e req of
           Inr response \<Rightarrow> (orElse (map_option trim (response_text response)) emptyTrend, [req])
         | Inl err \<Rightarrow> (errorTrend, [req])))"

section \<open>generateBanner\<close>

datatype BannerType = CleanSquare | CleanStory | DesignSquare

definition bannerPrompt ::
  "jsstring \<Rightarrow> BannerType \<Rightarrow> jsstring option \<Rightarrow> jsstring option \<Rightarrow> jsstring option \<Rightarrow> jsstring" where
  "bannerPrompt description' bannerType contactInfo price' designTrend =
     (case bannerType of
        CleanSquare \<Rightarrow> cleanSquarePrompt description'
      | CleanStory \<Rightarrow> cleanStoryPrompt
      | DesignSquare \<Rightarrow>
          if designTrend = Some TEMPLATE_BOLO_POTE_V1 then boloPotePrompt contactInfo price'
          else genericDesignPrompt contactInfo price' designTrend)"

definition bannerRequest :: "jsstring \<Rightarrow> jsstring \<Rightarrow> GenerateContentParameters" where
  "bannerRequest imageBase64 prompt =
     \<lparr>model = js ''gemini-2.5-flash-image'',
      contents = ContentObject
        \<lparr>role = None, parts = Some [jpegPart imageBase64, textPart prompt]\<rparr>,
      tools = []\<rparr>"

text \<open>\<open>response.candidates?.[0]?.content?.parts || []\<close>\<close>

definition responseParts :: "GenerateContentResponse \<Rightarrow> Part list" where
  "responseParts response =
     (case candidates response of
        None \<Rightarrow> []
      | Some [] \<Rightarrow> []
      | Some (c # _) \<Rightarrow>
          (case content c of
             None \<Rightarrow> []
           | Some ct \<Rightarrow> (case parts ct of None \<Rightarrow> [] | Some ps \<Rightarrow> ps)))"

text \<open>
  The loop over the parts stops at the first part that has an \<open>inlineData\<close> object and
  returns its \<open>data\<close> untested, be it absent (\<open>undefined\<close>) or empty.
\<close>

fun firstInlineData :: "Part list \<Rightarrow> Blob option" where
  "firstInlineData [] = None"
| "firstInlineData (p # ps) =
     (case inlineData p of Some b \<Rightarrow> Some b | None \<Rightarrow> firstInlineData ps)"

text \<open>
  The value returned is a \<open>jsstring option\<close>: \<open>None\<close> is \<open>undefined\<close>, which the
  function returns, against its declared \<open>Promise<string>\<close>, when the first inline blob
  has no \<open>data\<close>.
\<close>

definition generateBanner ::
  "env \<Rightarrow> jsstring \<Rightarrow> jsstring \<Rightarrow> BannerType \<Rightarrow> jsstring option \<Rightarrow> jsstring option \<Rightarrow>
   jsstring option \<Rightarrow> jsstring option \<times> GenerateContentParameters list" where
  "generateBanner e imageBase64 description' bannerType contactInfo price' designTrend =
     (let prompt = bannerPrompt description' bannerType contactInfo price' designTrend;
          req = bannerRequest imageBase64 prompt
      in (case generateContent e req of
            Inr response \<Rightarrow>
              (case firstInlineData (responseParts response) of
                 Some b \<Rightarrow> (blob_data b, [req])
               | None \<Rightarrow> (Some imageBase64, [req]))
          | Inl err \<Rightarrow> (Some imageBase64, [req])))"

section \<open>generateCampaign\<close>

definition copyRequest :: "'img campaign_data \<Rightarrow> GenerateContentParameters" where
  "copyRequest input =
     \<lparr>model = js ''gemini-3-flash-preview'',
      contents = ContentString (copyPrompt input),
      tools = []\<rparr>"

definition copyPlaceholder :: jsstring where
  "copyPlaceholder = js ''Erro ao gerar texto.''"

text \<open>
  The trend lookup and the copy request are started first, in this order, and joined by
  \<open>Promise.all\<close>. The trend lookup never rejects; the copy request is awaited bare, so
  its rejection is the rejection of the whole operation, and then no banner request is
  started. Otherwise the three banner requests are started in the order square, story,
  design, and joined.
\<close>

definition generateCampaign ::
  "env \<Rightarrow> jsstring campaign_data \<Rightarrow> (error + AdGenerationResult) \<times> GenerateContentParameters list" where
  "generateCampaign e input =
     (if apiKey e = [] then (Inl apiKeyMissing, [])
      else
        let (designTrend, trendCalls) = getDesignTrends e (description input);
            copyReq = copyRequest input
        in (case generateContent e copyReq of
              Inl err \<Rightarrow> (Inl err, trendCalls @ [copyReq])
            | Inr copyResponse \<Rightarrow>
                let generatedCopy = orElse (response_text copyResponse) copyPlaceholder;
                    (square, squareCalls) =
                      generateBanner e (productImage input) (description input) CleanSquare
                        None None None;
                    (story, storyCalls) =
                      generateBanner e (productImage input) (description input) CleanStory
                        None None None;
                    (design, designCalls) =
                      generateBanner e (productImage input) (description input) DesignSquare
                        (Some (contactPhone input)) (Some (price input)) (Some designTrend)
                in (Inr \<lparr>copy = generatedCopy, bannerSquare = square, bannerStory = story,
                          bannerDesign = design\<rparr>,
                    trendCalls @ [copyReq] @ squareCalls @ storyCalls @ designCalls)))"

section \<open>The wizard\<close>

datatype Step = HOME | DESCRIPTION | DYNAMIC_QUESTION | TECHNICAL_DETAILS | PROCESSING | RESULTS

record WizardState =
  step :: Step
  isLoading :: bool
  loadingMessage :: jsstring
  progress :: rat
  data :: "jsstring option campaign_data"
  results :: "(jsstring option, jsstring option) ad_result option"

definition initialState :: WizardState where
  "initialState =
     \<lparr>step = HOME, isLoading = False, loadingMessage = [], progress = 0,
      data = \<lparr>productImage = None, description = [], dynamicQuestion = None,
              dynamicAnswer = [], price = [], contactPhone = [], delivery = False,
              location = []\<rparr>,
      results = None\<rparr>"

text \<open>
  The outcome of running a handler to its end: the final state, the alerts shown and
  the gateway requests issued.
\<close>

record outcome =
  state :: WizardState
  alerts :: "jsstring list"
  calls :: "GenerateContentParameters list"

subsection \<open>stripBase64Prefix\<close>

text \<open>
  \<open>base64.replace(/^data:image\/[a-z]+;base64,/, "")\<close>: the prefix is removed when
  the string starts with \<open>data:image/\<close>, then at least one letter \<open>a\<close> to \<open>z\<close>,
  then \<open>;base64,\<close>. The letters are followed by \<open>;\<close>, so the match takes the whole
  run of letters.
\<close>

definition isLowerAZ :: "16 word \<Rightarrow> bool" where
  "isLowerAZ c \<longleftrightarrow> 0x61 \<le> c \<and> c \<le> 0x7A"

definition stripBase64Prefix :: "jsstring \<Rightarrow> jsstring" where
  "stripBase64Prefix base64 =
     (let scheme = js ''data:image/'';
          afterScheme = drop (length scheme) base64;
          subtype = takeWhile isLowerAZ afterScheme;
          afterSubtype = dropWhile isLowerAZ afterScheme;
          marker = js '';base64,''
      in if take (length scheme) base64 = scheme \<and> subtype \<noteq> []
            \<and> take (length marker) afterSubtype = marker
         then drop (length marker) afterSubtype
         else base64)"

text \<open>
  Both callers pass \<open>state.data.productImage\<close>, which may be \<open>null\<close>; \<open>replace\<close> on
  \<open>null\<close> throws a TypeError, inside the caller's \<open>try\<close>.
\<close>

definition stripImage :: "jsstring option \<Rightarrow> error + jsstring" where
  "stripImage img =
     (case img of
        None \<Rightarrow> Inl (Error (js ''Cannot read properties of null''))
      | Some base64 \<Rightarrow> Inr (stripBase64Prefix base64))"

subsection \<open>Progress simulation\<close>

text \<open>
  The effect on \<open>state.isLoading\<close> runs when the flag has changed; when it has become
  true it seeds the progress and starts the interval. Each firing of the interval is one
  \<open>tick\<close>. The values the simulation reaches are multiples of one half below 100, on
  which the additions of IEEE doubles are exact, so the progress is a rational number
  here.
\<close>

definition loadingEffect :: "bool \<Rightarrow> WizardState \<Rightarrow> WizardState" where
  "loadingEffect wasLoading s =
     (if isLoading s \<and> \<not> wasLoading then s\<lparr>progress := 5\<rparr> else s)"

definition tick :: "WizardState \<Rightarrow> WizardState" where
  "tick prev =
     (if progress prev \<ge> 95 then prev
      else
        let increment = (if progress prev < 40 then 2 else if progress prev < 70 then 1 else 1 / 2)
        in prev\<lparr>progress := progress prev + increment\<rparr>)"

definition ticks :: "nat \<Rightarrow> WizardState \<Rightarrow> WizardState" where
  "ticks n s = (tick ^^ n) s"

text \<open>
  The values of a loading cycle are multiples of one half up to 95.
\<close>

definition onGrid :: "rat \<Rightarrow> bool" where
  "onGrid p \<longleftrightarrow> of_int \<lfloor>2 * p\<rfloor> = 2 * p \<and> p \<le> 95"

text \<open>
  A handler that starts an AI call sets the loading flag and a message, and then awaits.
  \<open>awaiting n s msg\<close> is the state when the awaited call settles, after the effect and
  \<open>n\<close> firings of the interval.
\<close>

definition awaiting :: "nat \<Rightarrow> WizardState \<Rightarrow> jsstring \<Rightarrow> WizardState" where
  "awaiting n s msg =
     ticks n (loadingEffect (isLoading s) (s\<lparr>isLoading := True, loadingMessage := msg\<rparr>))"

subsection \<open>Handlers\<close>

definition updateData ::
  "(jsstring option campaign_data \<Rightarrow> jsstring option campaign_data) \<Rightarrow> WizardState \<Rightarrow> WizardState" where
  "updateData change prev = prev\<lparr>data := change (data prev)\<rparr>"

definition handleStart :: "WizardState \<Rightarrow> WizardState" where
  "handleStart prev = prev\<lparr>step := DESCRIPTION\<rparr>"

text \<open>\<open>!x\<close> on \<open>string | null\<close>: \<open>null\<close> and the empty string are falsy.\<close>

definition falsy :: "jsstring option \<Rightarrow> bool" where
  "falsy x = (case x of None \<Rightarrow> True | Some s \<Rightarrow> s = [])"

definition photoPrompt :: jsstring where
  "photoPrompt = js ''Por favor, adicione uma foto e descri'' @ [0xE7, 0xE3] @ js ''o.''"

definition analysingMessage :: jsstring where
  "analysingMessage = js ''Analisando seu produto com IA...''"

definition fallbackQuestion :: jsstring where
  "fallbackQuestion = js ''Quais os principais diferenciais deste produto?''"

text \<open>
  The argument \<open>stripBase64Prefix(state.data.productImage)\<close> is evaluated before the
  service is called. When it throws (a null image), the \<open>catch\<close> block runs in the same
  turn as the first \<open>setState\<close>: the handler never awaits, the updates are applied
  together, the loading flag is never seen true and the effect does not run. Otherwise
  the handler awaits the service, and the effect and \<open>n\<close> firings of the interval
  come first.
\<close>

definition handleGoToStep2 :: "env \<Rightarrow> nat \<Rightarrow> WizardState \<Rightarrow> outcome" where
  "handleGoToStep2 e n s =
     (if description (data s) = [] \<or> falsy (productImage (data s))
      then \<lparr>state = s, alerts = [photoPrompt], calls = []\<rparr>
      else
        let loading = s\<lparr>isLoading := True, loadingMessage := analysingMessage\<rparr> in
        (case stripImage (productImage (data s)) of
           Inl err \<Rightarrow>
             \<lparr>state = (updateData (\<lambda>d. d\<lparr>dynamicQuestion := Some fallbackQuestion\<rparr>) loading)
                        \<lparr>isLoading := False, step := DYNAMIC_QUESTION\<rparr>,
              alerts = [], calls = []\<rparr>
         | Inr img \<Rightarrow>
             let waiting = awaiting n s analysingMessage;
                 (settled, issued) = generateFollowUpQuestion e (description (data s)) img;
                 question = (case settled of Inr q \<Rightarrow> q | Inl err \<Rightarrow> fallbackQuestion)
             in \<lparr>state = (updateData (\<lambda>d. d\<lparr>dynamicQuestion := Some question\<rparr>) waiting)
                            \<lparr>isLoading := False, step := DYNAMIC_QUESTION\<rparr>,
                 alerts = [], calls = issued\<rparr>))"

definition handleGoToStep3 :: "WizardState \<Rightarrow> outcome" where
  "handleGoToStep3 s =
     (if dynamicAnswer (data s) = [] \<or> price (data s) = []
      then \<lparr>state = s, alerts = [], calls = []\<rparr>
      else \<lparr>state = s\<lparr>step := TECHNICAL_DETAILS\<rparr>, alerts = [], calls = []\<rparr>)"

definition contactPrompt :: jsstring where
  "contactPrompt = js ''Preencha os dados de contato.''"

definition creatingMessage :: jsstring where
  "creatingMessage = js ''Criando arte viral e copy persuasiva...''"

definition generationFailed :: jsstring where
  "generationFailed =
     js ''Ocorreu um erro ao gerar o an'' @ [0xFA] @ js ''ncio. Tente novamente.''"

text \<open>\<open>`data:image/jpeg;base64,${banner}`\<close>, where the banner may be \<open>undefined\<close>.\<close>

definition jpegDataUrl :: "jsstring option \<Rightarrow> jsstring" where
  "jpegDataUrl banner = js ''data:image/jpeg;base64,'' @ interpolate banner"

text \<open>\<open>{...state.data, productImage: image}\<close>\<close>

definition withImage :: "'a campaign_data \<Rightarrow> 'b \<Rightarrow> 'b campaign_data" where
  "withImage d img =
     \<lparr>productImage = img, description = description d,
      dynamicQuestion = dynamicQuestion d, dynamicAnswer = dynamicAnswer d, price = price d,
      contactPhone = contactPhone d, delivery = delivery d, location = location d\<rparr>"

text \<open>
  As in \<open>handleGoToStep2\<close>, a null image makes \<open>stripBase64Prefix\<close> throw before
  \<open>generateCampaign\<close> is called and before the handler awaits: the \<open>catch\<close> block
  alerts and clears the flag in the same turn, and the effect does not run. Otherwise
  \<open>n\<close> firings of the interval happen while the campaign is generated, and \<open>m\<close>
  during the delay of 500 ms that follows the forced 100%.
\<close>

definition handleGenerate :: "env \<Rightarrow> nat \<Rightarrow> nat \<Rightarrow> WizardState \<Rightarrow> outcome" where
  "handleGenerate e n m s =
     (if contactPhone (data s) = [] \<or> location (data s) = []
      then \<lparr>state = s, alerts = [contactPrompt], calls = []\<rparr>
      else
        let loading = s\<lparr>isLoading := True, loadingMessage := creatingMessage\<rparr> in
        (case stripImage (productImage (data s)) of
           Inl err \<Rightarrow>
             \<lparr>state = loading\<lparr>isLoading := False\<rparr>, alerts = [generationFailed], calls = []\<rparr>
         | Inr img \<Rightarrow>
             let waiting = awaiting n s creatingMessage;
                 (settled, issued) = generateCampaign e (withImage (data s) img)
             in (case settled of
                   Inr r \<Rightarrow>
                     \<lparr>state = (ticks m (waiting\<lparr>progress := 100\<rparr>))
                        \<lparr>isLoading := False,
                         results := Some
                           \<lparr>copy = Some (copy r),
                            bannerSquare = Some (jpegDataUrl (bannerSquare r)),
                            bannerStory = Some (jpegDataUrl (bannerStory r)),
                            bannerDesign = Some (jpegDataUrl (bannerDesign r))\<rparr>,
                         step := RESULTS\<rparr>,
                      alerts = [], calls = issued\<rparr>
                 | Inl err \<Rightarrow>
                     \<lparr>state = waiting\<lparr>isLoading := False\<rparr>, alerts = [generationFailed],
                      calls = issued\<rparr>)))"

text \<open>
  The three "continue" buttons are rendered with a \<open>disabled\<close> flag computed from the
  same state as their handler; a disabled button does not call its handler.
\<close>

definition renderStep1_disabled :: "WizardState \<Rightarrow> bool" where
  "renderStep1_disabled s \<longleftrightarrow> description (data s) = [] \<or> falsy (productImage (data s))"

definition renderStep2_disabled :: "WizardState \<Rightarrow> bool" where
  "renderStep2_disabled s \<longleftrightarrow> dynamicAnswer (data s) = [] \<or> price (data s) = []"

definition renderStep3_disabled :: "WizardState \<Rightarrow> bool" where
  "renderStep3_disabled s \<longleftrightarrow> contactPhone (data s) = [] \<or> location (data s) = []"

section \<open>Worked environments\<close>

text \<open>
  Concrete hosts and gateways for the worked examples. On strings whose code units
  are all below \<open>0x100\<close>, \<open>latin1_toLowerCase\<close> and \<open>latin1_normalizeNFD\<close> are
  \<open>toLowerCase\<close> and \<open>normalize('NFD')\<close> of ECMAScript (the Latin-1 letters and their
  canonical decompositions); other code units are left as they are.
\<close>

definition latin1_lower :: "16 word \<Rightarrow> 16 word" where
  "latin1_lower c =
     (if (0x41 \<le> c \<and> c \<le> 0x5A) \<or> (0xC0 \<le> c \<and> c \<le> 0xDE \<and> c \<noteq> 0xD7)
      then c + 0x20 else c)"

definition latin1_toLowerCase :: "jsstring \<Rightarrow> jsstring" where
  "latin1_toLowerCase s = map latin1_lower s"

definition latin1_decomposition :: "(16 word \<times> jsstring) list" where
  "latin1_decomposition =
     [
      (0xC0, [0x41, 0x0300]), (0xC1, [0x41, 0x0301]), (0xC2, [0x41, 0x0302]), (0xC3, [0x41, 0x0303]), (0xC4, [0x41, 0x0308]),
      (0xC5, [0x41, 0x030A]), (0xC7, [0x43, 0x0327]), (0xC8, [0x45, 0x0300]), (0xC9, [0x45, 0x0301]), (0xCA, [0x45, 0x0302]),
      (0xCB, [0x45, 0x0308]), (0xCC, [0x49, 0x0300]), (0xCD, [0x49, 0x0301]), (0xCE, [0x49, 0x0302]), (0xCF, [0x49, 0x0308]),
      (0xD1, [0x4E, 0x0303]), (0xD2, [0x4F, 0x0300]), (0xD3, [0x4F, 0x0301]), (0xD4, [0x4F, 0x0302]), (0xD5, [0x4F, 0x0303]),
      (0xD6, [0x4F, 0x0308]), (0xD9, [0x55, 0x0300]), (0xDA, [0x55, 0x0301]), (0xDB, [0x55, 0x0302]), (0xDC, [0x55, 0x0308]),
      (0xDD, [0x59, 0x0301]), (0xE0, [0x61, 0x0300]), (0xE1, [0x61, 0x0301]), (0xE2, [0x61, 0x0302]), (0xE3, [0x61, 0x0303]),
      (0xE4, [0x61, 0x0308]), (0xE5, [0x61, 0x030A]), (0xE7, [0x63, 0x0327]), (0xE8, [0x65, 0x0300]), (0xE9, [0x65, 0x0301]),
      (0xEA, [0x65, 0x0302]), (0xEB, [0x65, 0x0308]), (0xEC, [0x69, 0x0300]), (0xED, [0x69, 0x0301]), (0xEE, [0x69, 0x0302]),
      (0xEF, [0x69, 0x0308]), (0xF1, [0x6E, 0x0303]), (0xF2, [0x6F, 0x0300]), (0xF3, [0x6F, 0x0301]), (0xF4, [0x6F, 0x0302]),
      (0xF5, [0x6F, 0x0303]), (0xF6, [0x6F, 0x0308]), (0xF9, [0x75, 0x0300]), (0xFA, [0x75, 0x0301]), (0xFB, [0x75, 0x0302]),
      (0xFC, [0x75, 0x0308]), (0xFD, [0x79, 0x0301]), (0xFF, [0x79, 0x0308])
     ]"

definition latin1_decompose :: "16 word \<Rightarrow> jsstring" where
  "latin1_decompose c = (case map_of latin1_decomposition c of Some d \<Rightarrow> d | None \<Rightarrow> [c])"

definition latin1_normalizeNFD :: "jsstring \<Rightarrow> jsstring" where
  "latin1_normalizeNFD s = concat (map latin1_decompose s)"

definition exampleEnv :: "jsstring \<Rightarrow> gateway \<Rightarrow> env" where
  "exampleEnv key gw =
     \<lparr>apiKey = key, generateContent = gw, toLowerCase = latin1_toLowerCase,
      normalizeNFD = latin1_normalizeNFD\<rparr>"

text \<open>A gateway that cannot be reached, one that answers with nothing, one that answers
  every request with the same text and the same edited image, one that fails on a
  single request, one that can be reached for a single request only, and one that
  answers every request with a single inline blob holding the given \<open>data\<close> (absent
  when \<open>None\<close>) and no text.\<close>

definition unreachable :: gateway where
  "unreachable req = Inl (Error (js ''Failed to fetch''))"

definition silent :: gateway where
  "silent req = Inr \<lparr>response_text = None, candidates = None\<rparr>"

definition answering :: "jsstring \<Rightarrow> jsstring \<Rightarrow> gateway" where
  "answering answer edited req =
     Inr \<lparr>response_text = Some answer,
          candidates = Some
            [\<lparr>content = Some \<lparr>role = Some (js ''model''), parts = Some [jpegPart edited]\<rparr>\<rparr>]\<rparr>"

definition failingOn :: "GenerateContentParameters \<Rightarrow> gateway \<Rightarrow> gateway" where
  "failingOn bad gw req = (if req = bad then Inl (Error (js ''Failed to fetch'')) else gw req)"


definition payloadOnly :: "jsstring option \<Rightarrow> gateway" where
  "payloadOnly payload req =
     Inr \<lparr>response_text = None,
          candidates = Some
            [\<lparr>content = Some
                \<lparr>role = Some (js ''model''),
                 parts = Some
                   [\<lparr>part_text = None,
                     inlineData = Some \<lparr>mimeType = Some (js ''image/jpeg''),
                                        blob_data = payload\<rparr>\<rparr>]\<rparr>\<rparr>]\<rparr>"

definition boloInput :: "jsstring campaign_data" where
  "boloInput =
     \<lparr>productImage = js ''/9j/4AAQ'', description = js ''Bolo de Pote de Morango'',
      dynamicQuestion = Some (js ''Quais sabores?''), dynamicAnswer = js ''Morango e chocolate'',
      price = js ''R'' @ [0x24, 0xA0] @ js ''12,00'', contactPhone = js ''(11) 99999-0000'',
      delivery = True, location = js ''Centro''\<rparr>"

definition tenisInput :: "jsstring campaign_data" where
  "tenisInput =
     \<lparr>productImage = js ''/9j/4AAQ'', description = js ''T'' @ [0xEA] @ js ''nis Nike Air'',
      dynamicQuestion = Some (js ''Qual o tamanho?''), dynamicAnswer = js ''42'',
      price = js ''R'' @ [0x24, 0xA0] @ js ''350,00'', contactPhone = js ''(11) 99999-0000'',
      delivery = False, location = js ''Centro''\<rparr>"

text \<open>Wizard states for the worked examples: the wizard at a step, holding some data.\<close>

definition exampleData :: "jsstring option campaign_data" where
  "exampleData = withImage tenisInput (Some (js ''data:image/jpeg;base64,/9j/4AAQ''))"

definition wizardAt :: "Step \<Rightarrow> jsstring option campaign_data \<Rightarrow> WizardState" where
  "wizardAt st d = initialState\<lparr>step := st, data := d\<rparr>"

section \<open>Properties of the service\<close>

lemma orElse_nonempty: "fallback \<noteq> [] \<Longrightarrow> orElse x fallback \<noteq> []"
  by (simp add: orElse_def split: option.split)

lemma orElse_falsy: "falsy x \<Longrightarrow> orElse x fallback = fallback"
  by (simp add: orElse_def falsy_def split: option.splits)

lemma orElse_truthy: "s \<noteq> [] \<Longrightarrow> orElse (Some s) fallback = s"
  by (simp add: orElse_def)

lemma emptyResultQuestion_nonempty: "emptyResultQuestion \<noteq> []"
  by (simp add: emptyResultQuestion_def js_def)

lemma errorQuestion_nonempty: "errorQuestion \<noteq> []"
  by (simp add: errorQuestion_def js_def)

lemma question_fallbacks_differ: "emptyResultQuestion \<noteq> errorQuestion"
  by (simp add: emptyResultQuestion_def errorQuestion_def js_def)

lemma followUp_unconfigured:
  "apiKey e = [] \<Longrightarrow> generateFollowUpQuestion e d i = (Inl apiKeyMissing, [])"
  by (simp add: generateFollowUpQuestion_def)

lemma followUp_rejected:
  "apiKey e \<noteq> [] \<Longrightarrow> generateContent e (followUpRequest d i) = Inl err \<Longrightarrow>
   generateFollowUpQuestion e d i = (Inr errorQuestion, [followUpRequest d i])"
  by (simp add: generateFollowUpQuestion_def)

lemma followUp_resolved:
  "apiKey e \<noteq> [] \<Longrightarrow> generateContent e (followUpRequest d i) = Inr r \<Longrightarrow>
   generateFollowUpQuestion e d i =
     (Inr (orElse (map_option trim (response_text r)) emptyResultQuestion), [followUpRequest d i])"
  by (simp add: generateFollowUpQuestion_def)

text \<open>
  C2, as amended. With an API key configured, \<open>generateFollowUpQuestion\<close> resolves to
  a non-empty string for every description and image, whatever the gateway does: the
  error fallback when the call rejects, the empty-result fallback when the text is missing
  or empty after trimming, the trimmed text otherwise. With no API key it rejects with
  "API Key missing" before any gateway call. The two fallback questions differ.
\<close>

theorem followUpQuestion_settles:
  "(apiKey e \<noteq> [] \<longrightarrow>
      (\<exists>q. fst (generateFollowUpQuestion e d i) = Inr q \<and> q \<noteq> [])
      \<and> (\<forall>err. generateContent e (followUpRequest d i) = Inl err \<longrightarrow>
             fst (generateFollowUpQuestion e d i) = Inr errorQuestion)
      \<and> (\<forall>r. generateContent e (followUpRequest d i) = Inr r
               \<and> falsy (map_option trim (response_text r)) \<longrightarrow>
             fst (generateFollowUpQuestion e d i) = Inr emptyResultQuestion)
      \<and> (\<forall>r t. generateContent e (followUpRequest d i) = Inr r
               \<and> response_text r = Some t \<and> trim t \<noteq> [] \<longrightarrow>
             fst (generateFollowUpQuestion e d i) = Inr (trim t)))
   \<and> (apiKey e = [] \<longrightarrow> generateFollowUpQuestion e d i = (Inl apiKeyMissing, []))
   \<and> emptyResultQuestion \<noteq> errorQuestion"
proof (intro conjI impI allI)
  assume key: "apiKey e \<noteq> []"
  show "\<exists>q. fst (generateFollowUpQuestion e d i) = Inr q \<and> q \<noteq> []"
  proof (cases "generateContent e (followUpRequest d i)")
    case (Inl err)
    with key show ?thesis
      by (simp add: followUp_rejected errorQuestion_nonempty)
  next
    case (Inr r)
    with key show ?thesis
      by (simp add: followUp_resolved orElse_nonempty emptyResultQuestion_nonempty)
  qed
next
  fix err
  assume "apiKey e \<noteq> []" "generateContent e (followUpRequest d i) = Inl err"
  then show "fst (generateFollowUpQuestion e d i) = Inr errorQuestion"
    by (simp add: followUp_rejected)
next
  fix r
  assume "apiKey e \<noteq> []"
    "generateContent e (followUpRequest d i) = Inr r \<and> falsy (map_option trim (response_text r))"
  then show "fst (generateFollowUpQuestion e d i) = Inr emptyResultQuestion"
    by (simp add: followUp_resolved orElse_falsy)
next
  fix r t
  assume "apiKey e \<noteq> []"
    "generateContent e (followUpRequest d i) = Inr r \<and> response_text r = Some t \<and> trim t \<noteq> []"
  then show "fst (generateFollowUpQuestion e d i) = Inr (trim t)"
    by (simp add: followUp_resolved orElse_truthy)
next
  assume "apiKey e = []"
  then show "generateFollowUpQuestion e d i = (Inl apiKeyMissing, [])"
    by (rule followUp_unconfigured)
next
  show "emptyResultQuestion \<noteq> errorQuestion"
    by (rule question_fallbacks_differ)
qed

lemma exampleEnv_simps:
  "apiKey (exampleEnv key gw) = key"
  "generateContent (exampleEnv key gw) = gw"
  "toLowerCase (exampleEnv key gw) = latin1_toLowerCase"
  "normalizeNFD (exampleEnv key gw) = latin1_normalizeNFD"
  by (simp_all add: exampleEnv_def)

theorem followUpQuestion_settles_witness:
  "fst (generateFollowUpQuestion (exampleEnv (js ''key'') unreachable)
          (js ''Bolo de Pote de Morango'') (js ''/9j/4AAQ'')) = Inr errorQuestion
   \<and> fst (generateFollowUpQuestion (exampleEnv (js ''key'') silent)
          (js ''Bolo de Pote de Morango'') (js ''/9j/4AAQ'')) = Inr emptyResultQuestion
   \<and> fst (generateFollowUpQuestion (exampleEnv (js ''key'') (answering (js ''  Qual o sabor?  '') []))
          (js ''Bolo de Pote de Morango'') (js ''/9j/4AAQ'')) = Inr (js ''Qual o sabor?'')
   \<and> generateFollowUpQuestion (exampleEnv [] silent)
          (js ''Bolo de Pote de Morango'') (js ''/9j/4AAQ'') = (Inl apiKeyMissing, [])"
proof -
  have key: "apiKey (exampleEnv (js ''key'') gw) \<noteq> []" for gw
    by (simp add: exampleEnv_simps js_def)
  have nokey: "apiKey (exampleEnv [] silent) = []"
    by (simp add: exampleEnv_simps)
  note a = followUpQuestion_settles [of "exampleEnv (js ''key'') unreachable"
      "js ''Bolo de Pote de Morango''" "js ''/9j/4AAQ''"]
  note b = followUpQuestion_settles [of "exampleEnv (js ''key'') silent"
      "js ''Bolo de Pote de Morango''" "js ''/9j/4AAQ''"]
  note c = followUpQuestion_settles [of "exampleEnv (js ''key'') (answering (js ''  Qual o sabor?  '') [])"
      "js ''Bolo de Pote de Morango''" "js ''/9j/4AAQ''"]
  note d = followUpQuestion_settles [of "exampleEnv [] silent"
      "js ''Bolo de Pote de Morango''" "js ''/9j/4AAQ''"]
  from a key have "fst (generateFollowUpQuestion (exampleEnv (js ''key'') unreachable)
          (js ''Bolo de Pote de Morango'') (js ''/9j/4AAQ'')) = Inr errorQuestion"
    by (simp add: exampleEnv_simps unreachable_def)
  moreover from b key have "fst (generateFollowUpQuestion (exampleEnv (js ''key'') silent)
          (js ''Bolo de Pote de Morango'') (js ''/9j/4AAQ'')) = Inr emptyResultQuestion"
    by (simp add: exampleEnv_simps silent_def falsy_def)
  moreover from c key have "fst (generateFollowUpQuestion (exampleEnv (js ''key'') (answering (js ''  Qual o sabor?  '') []))
          (js ''Bolo de Pote de Morango'') (js ''/9j/4AAQ'')) = Inr (js ''Qual o sabor?'')"
    by (simp add: exampleEnv_simps answering_def trim_def js_def isWhiteSpace_def)
  moreover from d nokey have "generateFollowUpQuestion (exampleEnv [] silent)
          (js ''Bolo de Pote de Morango'') (js ''/9j/4AAQ'') = (Inl apiKeyMissing, [])"
    by simp
  ultimately show ?thesis by blast
qed

text \<open>
  With no API key the operation rejects although the gateway would have answered: the
  guard stands before the \<open>try\<close>.
\<close>

theorem followUpQuestion_rejects_without_key:
  "fst (generateFollowUpQuestion (exampleEnv [] (answering (js ''Qual o sabor?'') []))
          (js ''Bolo de Pote de Morango'') (js ''/9j/4AAQ'')) = Inl apiKeyMissing"
  by (simp add: generateFollowUpQuestion_def exampleEnv_simps)

section \<open>Properties of generateCampaign\<close>

lemma banner_calls:
  "snd (generateBanner e img d ty c p t) = [bannerRequest img (bannerPrompt d ty c p t)]"
  by (simp add: generateBanner_def Let_def split: sum.split option.split)

lemma banner_rejected:
  "generateContent e (bannerRequest img (bannerPrompt d ty c p t)) = Inl err \<Longrightarrow>
   fst (generateBanner e img d ty c p t) = Some img"
  by (simp add: generateBanner_def Let_def)

lemma banner_resolved:
  "generateContent e (bannerRequest img (bannerPrompt d ty c p t)) = Inr r \<Longrightarrow>
   fst (generateBanner e img d ty c p t) =
     (case firstInlineData (responseParts r) of None \<Rightarrow> Some img | Some b \<Rightarrow> blob_data b)"
  by (simp add: generateBanner_def Let_def split: option.split)

lemma campaign_unconfigured:
  "apiKey e = [] \<Longrightarrow> generateCampaign e input = (Inl apiKeyMissing, [])"
  by (simp add: generateCampaign_def)

lemma campaign_copy_rejected:
  "apiKey e \<noteq> [] \<Longrightarrow> generateContent e (copyRequest input) = Inl err \<Longrightarrow>
   generateCampaign e input =
     (Inl err, snd (getDesignTrends e (description input)) @ [copyRequest input])"
  by (simp add: generateCampaign_def Let_def case_prod_beta)

lemma campaign_copy_resolved:
  "apiKey e \<noteq> [] \<Longrightarrow> generateContent e (copyRequest input) = Inr r \<Longrightarrow>
   generateCampaign e input =
     (Inr \<lparr>copy = orElse (response_text r) copyPlaceholder,
           bannerSquare = fst (generateBanner e (productImage input) (description input)
                                 CleanSquare None None None),
           bannerStory = fst (generateBanner e (productImage input) (description input)
                                CleanStory None None None),
           bannerDesign = fst (generateBanner e (productImage input) (description input)
                                 DesignSquare (Some (contactPhone input)) (Some (price input))
                                 (Some (fst (getDesignTrends e (description input)))))\<rparr>,
      snd (getDesignTrends e (description input)) @ [copyRequest input]
      @ [bannerRequest (productImage input)
           (bannerPrompt (description input) CleanSquare None None None),
         bannerRequest (productImage input)
           (bannerPrompt (description input) CleanStory None None None),
         bannerRequest (productImage input)
           (bannerPrompt (description input) DesignSquare (Some (contactPhone input))
              (Some (price input)) (Some (fst (getDesignTrends e (description input)))))])"
  by (simp add: generateCampaign_def Let_def case_prod_beta banner_calls)


lemma campaign_calls_without_search:
  assumes "snd (getDesignTrends e (description input)) = []"
  shows "\<forall>req \<in> set (snd (generateCampaign e input)). tools req = []"
proof (cases "apiKey e = []")
  case True
  then show ?thesis by (simp add: campaign_unconfigured)
next
  case False
  show ?thesis
  proof (cases "generateContent e (copyRequest input)")
    case (Inl err)
    with False assms show ?thesis
      by (simp add: campaign_copy_rejected copyRequest_def)
  next
    case (Inr r)
    with False assms show ?thesis
      by (simp add: campaign_copy_resolved copyRequest_def bannerRequest_def)
  qed
qed

text \<open>
  C4. A description whose normalization (lower-cased, decomposed, combining marks
  U+0300 to U+036F removed) contains "bolo de pote" makes the trend lookup return the
  sentinel without any gateway request; a campaign generated for such a description
  issues no request with the search tool.
\<close>

theorem design_trend_short_circuit:
  "str_includes (normalizeDesc e d) (js ''bolo de pote'') \<longrightarrow>
     getDesignTrends e d = (TEMPLATE_BOLO_POTE_V1, [])
     \<and> (\<forall>input. description input = d \<longrightarrow>
           (\<forall>req \<in> set (snd (generateCampaign e input)). tools req = []))"
proof (intro impI conjI allI)
  assume trigger: "str_includes (normalizeDesc e d) (js ''bolo de pote'')"
  then show sentinel: "getDesignTrends e d = (TEMPLATE_BOLO_POTE_V1, [])"
    by (simp add: getDesignTrends_def Let_def)
  fix input :: "jsstring campaign_data"
  assume "description input = d"
  with sentinel have "snd (getDesignTrends e (description input)) = []"
    by simp
  then show "\<forall>req \<in> set (snd (generateCampaign e input)). tools req = []"
    by (rule campaign_calls_without_search)
qed

lemma normalize_bolo_plain:
  "normalizeDesc (exampleEnv key gw) (js ''Bolo de Pote de Morango'') = js ''bolo de pote de morango''"
  by (simp add: normalizeDesc_def exampleEnv_def latin1_toLowerCase_def latin1_lower_def
      latin1_normalizeNFD_def latin1_decompose_def latin1_decomposition_def isCombiningMark_def
      js_def)

lemma normalize_bolo_accented:
  "normalizeDesc (exampleEnv key gw) (js ''B'' @ [0xD4] @ js ''LO DE P'' @ [0xD3] @ js ''TE'')
     = js ''bolo de pote''"
  by (simp add: normalizeDesc_def exampleEnv_def latin1_toLowerCase_def latin1_lower_def
      latin1_normalizeNFD_def latin1_decompose_def latin1_decomposition_def isCombiningMark_def
      js_def)

theorem design_trend_short_circuit_witness:
  "getDesignTrends (exampleEnv (js ''key'') unreachable) (js ''Bolo de Pote de Morango'')
     = (TEMPLATE_BOLO_POTE_V1, [])
   \<and> getDesignTrends (exampleEnv (js ''key'') unreachable)
        (js ''B'' @ [0xD4] @ js ''LO DE P'' @ [0xD3] @ js ''TE'')
     = (TEMPLATE_BOLO_POTE_V1, [])
   \<and> list_all (\<lambda>req. tools req = [])
        (snd (generateCampaign (exampleEnv (js ''key'') silent) boloInput))"
proof -
  have plain: "str_includes (normalizeDesc (exampleEnv (js ''key'') gw) (js ''Bolo de Pote de Morango''))
      (js ''bolo de pote'')" for gw
    unfolding normalize_bolo_plain by (simp add: js_def)
  have accented: "str_includes (normalizeDesc (exampleEnv (js ''key'') unreachable)
      (js ''B'' @ [0xD4] @ js ''LO DE P'' @ [0xD3] @ js ''TE'')) (js ''bolo de pote'')"
    unfolding normalize_bolo_accented by (simp add: js_def)
  have d: "description boloInput = js ''Bolo de Pote de Morango''"
    by (simp add: boloInput_def)
  from design_trend_short_circuit [of "exampleEnv (js ''key'') unreachable"
      "js ''Bolo de Pote de Morango''"] plain
  have "getDesignTrends (exampleEnv (js ''key'') unreachable) (js ''Bolo de Pote de Morango'')
     = (TEMPLATE_BOLO_POTE_V1, [])"
    by blast
  moreover from design_trend_short_circuit [of "exampleEnv (js ''key'') unreachable"
      "js ''B'' @ [0xD4] @ js ''LO DE P'' @ [0xD3] @ js ''TE''"] accented
  have "getDesignTrends (exampleEnv (js ''key'') unreachable)
        (js ''B'' @ [0xD4] @ js ''LO DE P'' @ [0xD3] @ js ''TE'')
     = (TEMPLATE_BOLO_POTE_V1, [])"
    by blast
  moreover from design_trend_short_circuit [of "exampleEnv (js ''key'') silent"
      "js ''Bolo de Pote de Morango''"] plain d
  have "list_all (\<lambda>req. tools req = [])
        (snd (generateCampaign (exampleEnv (js ''key'') silent) boloInput))"
    unfolding list_all_iff by blast
  ultimately show ?thesis by blast
qed

lemma copyPrompt_ignores_dynamicQuestion:
  "copyPrompt (input\<lparr>dynamicQuestion := q\<rparr>) = copyPrompt input"
  by (simp add: copyPrompt_def)

text \<open>
  C10. \<open>generateCampaign\<close> never reads \<open>dynamicQuestion\<close>: changing that field alone
  changes neither the settled value nor the requests issued, prompts included.
\<close>

theorem campaign_ignores_dynamicQuestion:
  "generateCampaign e (input\<lparr>dynamicQuestion := q\<rparr>) = generateCampaign e input"
  by (simp add: generateCampaign_def copyRequest_def copyPrompt_ignores_dynamicQuestion Let_def
      case_prod_beta split: sum.split)

text \<open>
  C1. The copy request is awaited outside any \<open>try\<close>: when it rejects, the whole
  operation rejects with the gateway's error, although the key is configured and every
  other call is answered. With the gateway unreachable, the scenario of the
  specification, the operation rejects as well.
\<close>

theorem campaign_rejects_when_copy_call_fails:
  "fst (generateCampaign
          (exampleEnv (js ''key'')
             (failingOn (copyRequest tenisInput) (answering (js ''ok'') (js ''EDITED''))))
          tenisInput) = Inl (Error (js ''Failed to fetch''))
   \<and> fst (generateCampaign (exampleEnv (js ''key'') unreachable) boloInput)
       = Inl (Error (js ''Failed to fetch''))"
proof -
  have key: "apiKey (exampleEnv (js ''key'') gw) \<noteq> []" for gw
    by (simp add: exampleEnv_simps js_def)
  have "generateContent
          (exampleEnv (js ''key'')
             (failingOn (copyRequest tenisInput) (answering (js ''ok'') (js ''EDITED''))))
          (copyRequest tenisInput) = Inl (Error (js ''Failed to fetch''))"
    by (simp add: exampleEnv_simps failingOn_def)
  moreover have "generateContent (exampleEnv (js ''key'') unreachable) (copyRequest boloInput)
      = Inl (Error (js ''Failed to fetch''))"
    by (simp add: exampleEnv_simps unreachable_def)
  ultimately show ?thesis
    by (simp add: campaign_copy_rejected [OF key])
qed

text \<open>
  A gateway that answers every request with nothing is absorbed: the copy is the
  placeholder and the three banners are the input image.
\<close>

lemma campaign_resolves_on_empty_answers:
  "fst (generateCampaign (exampleEnv (js ''key'') silent) input)
     = Inr \<lparr>copy = copyPlaceholder, bannerSquare = Some (productImage input),
            bannerStory = Some (productImage input), bannerDesign = Some (productImage input)\<rparr>"
proof -
  let ?e = "exampleEnv (js ''key'') silent"
  have key: "apiKey ?e \<noteq> []"
    by (simp add: exampleEnv_simps js_def)
  have unanswered: "generateContent ?e req = Inr \<lparr>response_text = None, candidates = None\<rparr>"
    for req
    by (simp add: exampleEnv_simps silent_def)
  have banner: "fst (generateBanner ?e img d ty c p t) = Some img" for img d ty c p t
    by (simp add: banner_resolved [OF unanswered] responseParts_def)
  show ?thesis
    by (simp add: campaign_copy_resolved [OF key unanswered] banner orElse_def)
qed


lemma copy_is_no_banner_request: "bannerRequest img prompt \<noteq> copyRequest input"
  by (simp add: bannerRequest_def copyRequest_def)



text \<open>
  Each image edit settles on its own: a rejected request, or a response without any
  inline blob, gives the input image; a response with an inline blob gives the
  \<open>data\<close> of the first one, whatever it is. Once the banner requests are started (the
  key is configured and the copy request has resolved) the campaign resolves, and each
  banner of the result is the outcome of its own request alone.
\<close>

lemma banners_settle_independently:
  "(\<forall>err. generateContent e (bannerRequest img (bannerPrompt d ty c p t)) = Inl err \<longrightarrow>
       fst (generateBanner e img d ty c p t) = Some img)
   \<and> (\<forall>r. generateContent e (bannerRequest img (bannerPrompt d ty c p t)) = Inr r
            \<and> firstInlineData (responseParts r) = None \<longrightarrow>
       fst (generateBanner e img d ty c p t) = Some img)
   \<and> (\<forall>r b. generateContent e (bannerRequest img (bannerPrompt d ty c p t)) = Inr r
            \<and> firstInlineData (responseParts r) = Some b \<longrightarrow>
       fst (generateBanner e img d ty c p t) = blob_data b)
   \<and> (apiKey e \<noteq> [] \<longrightarrow>
        (\<forall>r. generateContent e (copyRequest input) = Inr r \<longrightarrow>
           (\<exists>result. fst (generateCampaign e input) = Inr result
              \<and> bannerSquare result =
                  fst (generateBanner e (productImage input) (description input)
                         CleanSquare None None None)
              \<and> bannerStory result =
                  fst (generateBanner e (productImage input) (description input)
                         CleanStory None None None)
              \<and> bannerDesign result =
                  fst (generateBanner e (productImage input) (description input)
                         DesignSquare (Some (contactPhone input)) (Some (price input))
                         (Some (fst (getDesignTrends e (description input))))))))"
  by (simp add: banner_rejected banner_resolved campaign_copy_resolved)

lemma cleanSquare_is_not_cleanStory: "cleanSquarePrompt d \<noteq> cleanStoryPrompt"
  by (simp add: cleanSquarePrompt_def cleanStoryPrompt_def js_def nl_def)

lemma genericDesign_is_not_cleanStory: "genericDesignPrompt c p t \<noteq> cleanStoryPrompt"
  by (simp add: genericDesignPrompt_def cleanStoryPrompt_def js_def nl_def)

lemma boloPote_is_not_cleanStory: "boloPotePrompt c p \<noteq> cleanStoryPrompt"
  by (simp add: boloPotePrompt_def cleanStoryPrompt_def js_def nl_def)

text \<open>The story edit fails, the other two succeed: two edited images and the original.\<close>

lemma story_failure_leaves_other_banners:
  "fst (generateCampaign
          (exampleEnv (js ''key'')
             (failingOn (bannerRequest (productImage tenisInput) cleanStoryPrompt)
                (answering (js ''ok'') (js ''EDITED''))))
          tenisInput)
     = Inr \<lparr>copy = js ''ok'', bannerSquare = Some (js ''EDITED''),
            bannerStory = Some (productImage tenisInput), bannerDesign = Some (js ''EDITED'')\<rparr>"
proof -
  let ?story = "bannerRequest (productImage tenisInput) cleanStoryPrompt"
  let ?gw = "failingOn ?story (answering (js ''ok'') (js ''EDITED''))"
  let ?e = "exampleEnv (js ''key'') ?gw"
  let ?d = "description tenisInput"
  let ?img = "productImage tenisInput"
  let ?blob = "\<lparr>mimeType = Some (js ''image/jpeg''), blob_data = Some (js ''EDITED'')\<rparr>"
  let ?answer = "\<lparr>response_text = Some (js ''ok''),
          candidates = Some
            [\<lparr>content = Some \<lparr>role = Some (js ''model''), parts = Some [jpegPart (js ''EDITED'')]\<rparr>\<rparr>]\<rparr>"
  have key: "apiKey ?e \<noteq> []"
    by (simp add: exampleEnv_simps js_def)
  have copied: "generateContent ?e (copyRequest tenisInput) = Inr ?answer"
    by (simp add: exampleEnv_simps failingOn_def answering_def copy_is_no_banner_request [symmetric])
  have edited: "firstInlineData (responseParts ?answer) = Some ?blob"
    by (simp add: responseParts_def jpegPart_def)
  have square_call: "generateContent ?e
      (bannerRequest ?img (bannerPrompt ?d CleanSquare None None None)) = Inr ?answer"
    by (simp add: exampleEnv_simps failingOn_def answering_def bannerRequest_def bannerPrompt_def
        textPart_def cleanSquare_is_not_cleanStory)
  have story_call: "generateContent ?e
      (bannerRequest ?img (bannerPrompt ?d CleanStory None None None))
      = Inl (Error (js ''Failed to fetch''))"
    by (simp add: exampleEnv_simps failingOn_def bannerPrompt_def)
  have design_call: "generateContent ?e
      (bannerRequest ?img (bannerPrompt ?d DesignSquare c p t)) = Inr ?answer" for c p t
    by (simp add: exampleEnv_simps failingOn_def answering_def bannerRequest_def bannerPrompt_def
        textPart_def genericDesign_is_not_cleanStory boloPote_is_not_cleanStory)
  have square: "fst (generateBanner ?e ?img ?d CleanSquare None None None) = Some (js ''EDITED'')"
    by (simp add: banner_resolved [OF square_call] edited)
  have story: "fst (generateBanner ?e ?img ?d CleanStory None None None) = Some ?img"
    by (simp add: banner_rejected [OF story_call])
  have design: "fst (generateBanner ?e ?img ?d DesignSquare c p t) = Some (js ''EDITED'')" for c p t
    by (simp add: banner_resolved [OF design_call] edited)
  have ok: "orElse (Some (js ''ok'')) copyPlaceholder = js ''ok''"
    by (simp add: orElse_def js_def)
  show ?thesis
    by (simp add: campaign_copy_resolved [OF key copied] square story design ok)
qed

lemma payloadOnly_blob:
  "generateContent (exampleEnv key (payloadOnly payload)) req = Inr r \<Longrightarrow>
   response_text r = None
   \<and> firstInlineData (responseParts r)
       = Some \<lparr>mimeType = Some (js ''image/jpeg''), blob_data = payload\<rparr>"
  by (auto simp add: exampleEnv_simps payloadOnly_def responseParts_def)

lemma payloadOnly_banner:
  "fst (generateBanner (exampleEnv key (payloadOnly payload)) img d ty c p t) = payload"
proof -
  obtain r where r: "generateContent (exampleEnv key (payloadOnly payload))
      (bannerRequest img (bannerPrompt d ty c p t)) = Inr r"
    by (simp add: exampleEnv_simps payloadOnly_def)
  show ?thesis
    by (simp add: banner_resolved [OF r] payloadOnly_blob [OF r])
qed

lemma exampleData_simps:
  "productImage exampleData = Some (js ''data:image/jpeg;base64,/9j/4AAQ'')"
  "description exampleData = description tenisInput"
  "dynamicQuestion exampleData = dynamicQuestion tenisInput"
  "dynamicAnswer exampleData = dynamicAnswer tenisInput"
  "price exampleData = price tenisInput"
  "contactPhone exampleData = contactPhone tenisInput"
  "delivery exampleData = delivery tenisInput"
  "location exampleData = location tenisInput"
  by (simp_all add: exampleData_def withImage_def)

lemma wizardAt_simps:
  "step (wizardAt st d) = st" "isLoading (wizardAt st d) = False"
  "progress (wizardAt st d) = 0" "data (wizardAt st d) = d" "results (wizardAt st d) = None"
  by (simp_all add: wizardAt_def initialState_def)

lemma exampleData_stripped:
  "stripBase64Prefix (js ''data:image/jpeg;base64,/9j/4AAQ'') = productImage tenisInput"
  "withImage exampleData (productImage tenisInput) = tenisInput"
  by (simp_all add: exampleData_def withImage_def tenisInput_def stripBase64Prefix_def
      isLowerAZ_def js_def)

text \<open>
  C5. An image edit whose response carries an inline blob with empty or absent
  \<open>data\<close>, that is, no image payload, does not fall back on the input image:
  \<open>generateBanner\<close> returns the empty string, or \<open>undefined\<close>, for that slot. A campaign
  whose three edits are answered so resolves with three undefined banners, which the
  wizard stores as the text "data:image/jpeg;base64,undefined".
\<close>

theorem banner_without_payload_is_not_replaced:
  "fst (generateBanner (exampleEnv (js ''key'') (payloadOnly (Some [])))
          (productImage tenisInput) (description tenisInput) CleanStory None None None)
     = Some []
   \<and> fst (generateBanner (exampleEnv (js ''key'') (payloadOnly None))
          (productImage tenisInput) (description tenisInput) CleanStory None None None)
     = None
   \<and> fst (generateCampaign (exampleEnv (js ''key'') (payloadOnly None)) tenisInput)
     = Inr \<lparr>copy = copyPlaceholder, bannerSquare = None, bannerStory = None,
            bannerDesign = None\<rparr>
   \<and> results (state (handleGenerate (exampleEnv (js ''key'') (payloadOnly None)) 0 0
                      (wizardAt TECHNICAL_DETAILS exampleData)))
     = Some \<lparr>copy = Some copyPlaceholder,
             bannerSquare = Some (js ''data:image/jpeg;base64,undefined''),
             bannerStory = Some (js ''data:image/jpeg;base64,undefined''),
             bannerDesign = Some (js ''data:image/jpeg;base64,undefined'')\<rparr>"
proof -
  let ?e = "exampleEnv (js ''key'') (payloadOnly None)"
  have key: "apiKey ?e \<noteq> []"
    by (simp add: exampleEnv_simps js_def)
  obtain r where copied: "generateContent ?e (copyRequest tenisInput) = Inr r"
    by (simp add: exampleEnv_simps payloadOnly_def)
  have campaign: "fst (generateCampaign ?e tenisInput)
     = Inr \<lparr>copy = copyPlaceholder, bannerSquare = None, bannerStory = None,
             bannerDesign = None\<rparr>"
    by (simp add: campaign_copy_resolved [OF key copied] payloadOnly_banner
        payloadOnly_blob [OF copied] orElse_def)
  have filled: "contactPhone tenisInput \<noteq> []" "location tenisInput \<noteq> []"
    by (simp_all add: tenisInput_def js_def)
  have url: "jpegDataUrl None = js ''data:image/jpeg;base64,undefined''"
    by (simp add: jpegDataUrl_def interpolate_def js_def)
  have stored: "results (state (handleGenerate ?e 0 0 (wizardAt TECHNICAL_DETAILS exampleData)))
     = Some \<lparr>copy = Some copyPlaceholder,
             bannerSquare = Some (js ''data:image/jpeg;base64,undefined''),
             bannerStory = Some (js ''data:image/jpeg;base64,undefined''),
             bannerDesign = Some (js ''data:image/jpeg;base64,undefined'')\<rparr>"
    by (simp add: campaign handleGenerate_def wizardAt_simps exampleData_simps exampleData_stripped filled
        stripImage_def Let_def case_prod_beta url)
  from campaign stored show ?thesis
    by (simp add: payloadOnly_banner)
qed

section \<open>Properties of the wizard\<close>

lemma tick_frame:
  "step (tick s) = step s" "isLoading (tick s) = isLoading s"
  "loadingMessage (tick s) = loadingMessage s" "data (tick s) = data s"
  "results (tick s) = results s"
  by (simp_all add: tick_def Let_def)

lemma ticks_frame:
  "step (ticks n s) = step s" "isLoading (ticks n s) = isLoading s"
  "loadingMessage (ticks n s) = loadingMessage s" "data (ticks n s) = data s"
  "results (ticks n s) = results s"
  by (induction n) (simp_all add: ticks_def tick_frame)

lemma loadingEffect_frame:
  "step (loadingEffect w s) = step s" "isLoading (loadingEffect w s) = isLoading s"
  "loadingMessage (loadingEffect w s) = loadingMessage s" "data (loadingEffect w s) = data s"
  "results (loadingEffect w s) = results s"
  by (simp_all add: loadingEffect_def)

lemma awaiting_frame:
  "step (awaiting n s msg) = step s" "isLoading (awaiting n s msg)"
  "loadingMessage (awaiting n s msg) = msg" "data (awaiting n s msg) = data s"
  "results (awaiting n s msg) = results s"
  by (simp_all add: awaiting_def ticks_frame loadingEffect_frame)

lemma tick_nondecreasing: "progress s \<le> progress (tick s)"
  by (simp add: tick_def Let_def)

lemma tick_at_cap: "95 \<le> progress s \<Longrightarrow> tick s = s"
  by (simp add: tick_def)

lemma ticks_at_cap: "95 \<le> progress s \<Longrightarrow> ticks n s = s"
  by (induction n) (simp_all add: ticks_def tick_at_cap)

lemma onGrid_iff: "onGrid p \<longleftrightarrow> (\<exists>k::int. p = of_int k / 2 \<and> k \<le> 190)"
proof
  assume grid: "onGrid p"
  then have floor: "of_int \<lfloor>2 * p\<rfloor> = 2 * p" and "p \<le> 95"
    unfolding onGrid_def by blast+
  then have "p = of_int \<lfloor>2 * p\<rfloor> / 2" and "(of_int \<lfloor>2 * p\<rfloor> :: rat) \<le> 190"
    by linarith+
  then have "p = of_int \<lfloor>2 * p\<rfloor> / 2" and "\<lfloor>2 * p\<rfloor> \<le> 190"
    by linarith+
  then show "\<exists>k::int. p = of_int k / 2 \<and> k \<le> 190"
    by blast
next
  assume "\<exists>k::int. p = of_int k / 2 \<and> k \<le> 190"
  then obtain k :: int where k: "p = of_int k / 2" "k \<le> 190"
    by blast
  then have "2 * p = of_int k"
    by simp
  then have "of_int \<lfloor>2 * p\<rfloor> = 2 * p"
    by (simp only: floor_of_int)
  moreover from k have "p \<le> 95"
    by simp
  ultimately show "onGrid p"
    unfolding onGrid_def by blast
qed

lemma onGrid_seed: "onGrid 5"
  unfolding onGrid_iff by (rule exI [of _ 10]) simp

lemma onGrid_le: "onGrid p \<Longrightarrow> p \<le> 95"
  unfolding onGrid_iff by (auto simp add: field_simps)

lemma onGrid_tick:
  assumes "onGrid (progress s)"
  shows "onGrid (progress (tick s))"
proof -
  from assms obtain k :: int where k: "progress s = of_int k / 2" "k \<le> 190"
    unfolding onGrid_iff by blast
  consider "95 \<le> progress s" | "progress s < 40"
    | "40 \<le> progress s" "progress s < 70" | "70 \<le> progress s" "progress s < 95"
    by linarith
  then show ?thesis
  proof cases
    case 1
    with assms show ?thesis by (simp add: tick_at_cap)
  next
    case 2
    with k have "k < 80" by (simp add: field_simps)
    with 2 k show ?thesis
      unfolding onGrid_iff by (intro exI [of _ "k + 4"]) (simp add: tick_def Let_def field_simps)
  next
    case 3
    with k have "k < 140" by (simp add: field_simps)
    with 3 k show ?thesis
      unfolding onGrid_iff by (intro exI [of _ "k + 2"]) (simp add: tick_def Let_def field_simps)
  next
    case 4
    with k have "k < 190" by (simp add: field_simps)
    with 4 k show ?thesis
      unfolding onGrid_iff by (intro exI [of _ "k + 1"]) (simp add: tick_def Let_def field_simps)
  qed
qed

lemma onGrid_ticks: "onGrid (progress s) \<Longrightarrow> onGrid (progress (ticks n s))"
  by (induction n) (simp_all add: ticks_def onGrid_tick)

lemma awaiting_Suc: "awaiting (Suc n) s msg = tick (awaiting n s msg)"
  by (simp add: awaiting_def ticks_def)

lemma awaiting_onGrid: "\<not> isLoading s \<Longrightarrow> onGrid (progress (awaiting n s msg))"
  by (simp add: awaiting_def loadingEffect_def onGrid_ticks onGrid_seed)

text \<open>
  C8. In a loading cycle (the flag goes from false to true) the progress starts at 5,
  never decreases from one firing of the interval to the next, and never exceeds 95
  while the call is awaited. Below 95 a firing adds 2 under 40, 1 under 70 and one half
  from 70 on; at 95 it adds nothing. After the caller has forced 100, firings leave the
  value at 100.
\<close>

theorem progress_simulation:
  "\<not> isLoading s \<longrightarrow>
     progress (awaiting 0 s msg) = 5
     \<and> progress (awaiting n s msg) \<le> progress (awaiting (Suc n) s msg)
     \<and> progress (awaiting n s msg) \<le> 95
     \<and> progress (awaiting (Suc n) s msg) =
         (let p = progress (awaiting n s msg)
          in if 95 \<le> p then p else if p < 40 then p + 2 else if p < 70 then p + 1 else p + 1 / 2)
     \<and> ticks m ((awaiting n s msg)\<lparr>progress := 100\<rparr>) = (awaiting n s msg)\<lparr>progress := 100\<rparr>"
proof (intro impI conjI)
  assume idle: "\<not> isLoading s"
  then show "progress (awaiting 0 s msg) = 5"
    by (simp add: awaiting_def ticks_def loadingEffect_def)
  show "progress (awaiting n s msg) \<le> progress (awaiting (Suc n) s msg)"
    by (simp add: awaiting_Suc tick_nondecreasing)
  from idle show "progress (awaiting n s msg) \<le> 95"
    by (intro onGrid_le awaiting_onGrid)
  show "progress (awaiting (Suc n) s msg) =
         (let p = progress (awaiting n s msg)
          in if 95 \<le> p then p else if p < 40 then p + 2 else if p < 70 then p + 1 else p + 1 / 2)"
    by (simp add: awaiting_Suc tick_def Let_def)
  show "ticks m ((awaiting n s msg)\<lparr>progress := 100\<rparr>) = (awaiting n s msg)\<lparr>progress := 100\<rparr>"
    by (simp add: ticks_at_cap)
qed

theorem progress_simulation_witness:
  "map (\<lambda>n. progress (awaiting n (wizardAt TECHNICAL_DETAILS exampleData) creatingMessage))
     [0, 1, 17, 18, 19]
   = [5, 7, 39, 41, 42]
   \<and> progress (awaiting 500 (wizardAt TECHNICAL_DETAILS exampleData) creatingMessage) \<le> 95"
proof -
  let ?s = "wizardAt TECHNICAL_DETAILS exampleData"
  have idle: "\<not> isLoading ?s"
    by (simp add: wizardAt_def initialState_def)
  have start: "progress (awaiting 0 ?s creatingMessage) = 5"
    using progress_simulation [of ?s creatingMessage 0 0] idle by blast
  have step: "progress (awaiting (Suc n) ?s creatingMessage) =
         (let p = progress (awaiting n ?s creatingMessage)
          in if 95 \<le> p then p else if p < 40 then p + 2 else if p < 70 then p + 1 else p + 1 / 2)" for n
    using progress_simulation [of ?s creatingMessage n 0] idle by blast
  have cap: "progress (awaiting 500 ?s creatingMessage) \<le> 95"
    using progress_simulation [of ?s creatingMessage 500 0] idle by blast
  have low: "progress (awaiting n ?s creatingMessage) = 5 + 2 * of_nat n" if "n \<le> 17" for n
    using that
  proof (induction n)
    case 0
    show ?case by (simp add: start)
  next
    case (Suc n)
    then show ?case by (simp add: step Let_def)
  qed
  have "progress (awaiting 1 ?s creatingMessage) = 7"
    using low [of 1] by simp
  moreover have p17: "progress (awaiting 17 ?s creatingMessage) = 39"
    using low [of 17] by simp
  moreover have p18: "progress (awaiting 18 ?s creatingMessage) = 41"
    using step [of 17] p17 by simp
  moreover have "progress (awaiting 19 ?s creatingMessage) = 42"
    using step [of 18] p18 by simp
  ultimately show ?thesis
    using start cap by simp
qed

lemma step2_refused:
  "description (data s) = [] \<or> falsy (productImage (data s)) \<Longrightarrow>
   handleGoToStep2 e n s = \<lparr>state = s, alerts = [photoPrompt], calls = []\<rparr>"
  by (simp add: handleGoToStep2_def)

lemma step3_refused:
  "dynamicAnswer (data s) = [] \<or> price (data s) = [] \<Longrightarrow>
   handleGoToStep3 s = \<lparr>state = s, alerts = [], calls = []\<rparr>"
  by (simp add: handleGoToStep3_def)

lemma generate_refused:
  "contactPhone (data s) = [] \<or> location (data s) = [] \<Longrightarrow>
   handleGenerate e n m s = \<lparr>state = s, alerts = [contactPrompt], calls = []\<rparr>"
  by (simp add: handleGenerate_def)

text \<open>
  With their fields present the handlers do advance. The step out of DescriptionInput
  advances whatever the gateway does; when \<open>generateFollowUpQuestion\<close> rejects, the
  handler stores its own fallback question.
\<close>

lemma step2_advances:
  "description (data s) \<noteq> [] \<Longrightarrow> \<not> falsy (productImage (data s)) \<Longrightarrow>
   step (state (handleGoToStep2 e n s)) = DYNAMIC_QUESTION
   \<and> dynamicQuestion (data (state (handleGoToStep2 e n s))) \<noteq> None"
  by (simp add: handleGoToStep2_def Let_def case_prod_beta updateData_def split: sum.split)

lemma step2_fallback_on_rejection:
  "description (data s) \<noteq> [] \<Longrightarrow> \<not> falsy (productImage (data s)) \<Longrightarrow> apiKey e = [] \<Longrightarrow>
   dynamicQuestion (data (state (handleGoToStep2 e n s))) = Some fallbackQuestion
   \<and> calls (handleGoToStep2 e n s) = []"
  by (simp add: handleGoToStep2_def Let_def case_prod_beta updateData_def stripImage_def
      followUp_unconfigured split: option.split sum.split)

lemma step3_advances:
  "dynamicAnswer (data s) \<noteq> [] \<Longrightarrow> price (data s) \<noteq> [] \<Longrightarrow>
   handleGoToStep3 s = \<lparr>state = s\<lparr>step := TECHNICAL_DETAILS\<rparr>, alerts = [], calls = []\<rparr>"
  by (simp add: handleGoToStep3_def)

lemma generate_rejected:
  assumes "contactPhone (data s) \<noteq> []" "location (data s) \<noteq> []"
    and "productImage (data s) = Some img"
    and "fst (generateCampaign e (withImage (data s) (stripBase64Prefix img))) = Inl err"
  shows "state (handleGenerate e n m s) = (awaiting n s creatingMessage)\<lparr>isLoading := False\<rparr>"
    and "alerts (handleGenerate e n m s) = [generationFailed]"
  using assms
  by (simp_all add: handleGenerate_def stripImage_def Let_def case_prod_beta)

lemma generate_without_image:
  assumes "contactPhone (data s) \<noteq> []" "location (data s) \<noteq> []"
    and "productImage (data s) = None"
  shows "handleGenerate e n m s =
           \<lparr>state = s\<lparr>isLoading := True, loadingMessage := creatingMessage\<rparr>\<lparr>isLoading := False\<rparr>,
            alerts = [generationFailed], calls = []\<rparr>"
  using assms
  by (simp add: handleGenerate_def stripImage_def Let_def)

lemma generate_succeeded:
  assumes "contactPhone (data s) \<noteq> []" "location (data s) \<noteq> []"
    and "productImage (data s) = Some img"
    and "fst (generateCampaign e (withImage (data s) (stripBase64Prefix img))) = Inr r"
  shows "step (state (handleGenerate e n m s)) = RESULTS"
    and "progress (state (handleGenerate e n m s)) = 100"
    and "results (state (handleGenerate e n m s)) =
           Some \<lparr>copy = Some (copy r),
                 bannerSquare = Some (jpegDataUrl (bannerSquare r)),
                 bannerStory = Some (jpegDataUrl (bannerStory r)),
                 bannerDesign = Some (jpegDataUrl (bannerDesign r))\<rparr>"
    and "alerts (handleGenerate e n m s) = []"
  using assms
  by (simp_all add: handleGenerate_def stripImage_def Let_def case_prod_beta ticks_at_cap)

text \<open>
  Each "continue" button is disabled exactly when the guard of its handler refuses.
\<close>

lemma prompts_differ: "contactPrompt \<noteq> generationFailed" "photoPrompt \<noteq> []"
  by (simp_all add: contactPrompt_def generationFailed_def photoPrompt_def js_def)

lemma alerts_only_behind_disabled_buttons:
  "alerts (handleGoToStep2 e n s) = [photoPrompt] \<longleftrightarrow> renderStep1_disabled s"
  "alerts (handleGenerate e n m s) = [contactPrompt] \<longleftrightarrow> renderStep3_disabled s"
  "renderStep2_disabled s \<Longrightarrow> handleGoToStep3 s = \<lparr>state = s, alerts = [], calls = []\<rparr>"
  by (simp_all add: handleGoToStep2_def handleGenerate_def handleGoToStep3_def
      renderStep1_disabled_def renderStep2_disabled_def renderStep3_disabled_def Let_def
      case_prod_beta prompts_differ [symmetric] split: sum.split)

text \<open>
  C6. A gated transition attempted with a required field empty or null leaves the
  whole state as it was, the step included, and issues no gateway request: the step out
  of DescriptionInput when the description is empty or the image is null (or empty), the
  step out of DynamicQuestion when the answer or the price is empty, the step out of
  TechnicalDetails when the phone or the location is empty.
\<close>

theorem gated_transitions_refused:
  "(description (data s) = [] \<or> productImage (data s) = None \<or> productImage (data s) = Some []
      \<longrightarrow> state (handleGoToStep2 e n s) = s \<and> calls (handleGoToStep2 e n s) = [])
   \<and> (dynamicAnswer (data s) = [] \<or> price (data s) = []
      \<longrightarrow> state (handleGoToStep3 s) = s \<and> calls (handleGoToStep3 s) = [])
   \<and> (contactPhone (data s) = [] \<or> location (data s) = []
      \<longrightarrow> state (handleGenerate e n m s) = s \<and> calls (handleGenerate e n m s) = [])"
proof (intro conjI impI)
  assume "description (data s) = [] \<or> productImage (data s) = None
    \<or> productImage (data s) = Some []"
  then have missing: "description (data s) = [] \<or> falsy (productImage (data s))"
    by (auto simp add: falsy_def)
  show "state (handleGoToStep2 e n s) = s" "calls (handleGoToStep2 e n s) = []"
    by (simp_all add: step2_refused [OF missing])
next
  assume missing: "dynamicAnswer (data s) = [] \<or> price (data s) = []"
  show "state (handleGoToStep3 s) = s" "calls (handleGoToStep3 s) = []"
    by (simp_all add: step3_refused [OF missing])
next
  assume missing: "contactPhone (data s) = [] \<or> location (data s) = []"
  show "state (handleGenerate e n m s) = s" "calls (handleGenerate e n m s) = []"
    by (simp_all add: generate_refused [OF missing])
qed

theorem gated_transitions_refused_witness:
  "state (handleGoToStep2 (exampleEnv (js ''key'') silent) 3
            (wizardAt DESCRIPTION (exampleData\<lparr>productImage := None\<rparr>)))
     = wizardAt DESCRIPTION (exampleData\<lparr>productImage := None\<rparr>)
   \<and> calls (handleGoToStep2 (exampleEnv (js ''key'') silent) 3
            (wizardAt DESCRIPTION (exampleData\<lparr>productImage := None\<rparr>))) = []
   \<and> state (handleGoToStep3 (wizardAt DYNAMIC_QUESTION (exampleData\<lparr>price := []\<rparr>)))
     = wizardAt DYNAMIC_QUESTION (exampleData\<lparr>price := []\<rparr>)
   \<and> state (handleGenerate (exampleEnv (js ''key'') silent) 3 3
            (wizardAt TECHNICAL_DETAILS (exampleData\<lparr>location := []\<rparr>)))
     = wizardAt TECHNICAL_DETAILS (exampleData\<lparr>location := []\<rparr>)
   \<and> calls (handleGenerate (exampleEnv (js ''key'') silent) 3 3
            (wizardAt TECHNICAL_DETAILS (exampleData\<lparr>location := []\<rparr>))) = []"
proof -
  let ?e = "exampleEnv (js ''key'') silent"
  have "productImage (data (wizardAt DESCRIPTION (exampleData\<lparr>productImage := None\<rparr>))) = None"
    by (simp add: wizardAt_simps)
  with gated_transitions_refused [of "wizardAt DESCRIPTION (exampleData\<lparr>productImage := None\<rparr>)" ?e 3 3]
  have a: "state (handleGoToStep2 ?e 3 (wizardAt DESCRIPTION (exampleData\<lparr>productImage := None\<rparr>)))
      = wizardAt DESCRIPTION (exampleData\<lparr>productImage := None\<rparr>)
    \<and> calls (handleGoToStep2 ?e 3 (wizardAt DESCRIPTION (exampleData\<lparr>productImage := None\<rparr>))) = []"
    by blast
  have "price (data (wizardAt DYNAMIC_QUESTION (exampleData\<lparr>price := []\<rparr>))) = []"
    by (simp add: wizardAt_simps)
  with gated_transitions_refused [of "wizardAt DYNAMIC_QUESTION (exampleData\<lparr>price := []\<rparr>)" ?e 3 3]
  have b: "state (handleGoToStep3 (wizardAt DYNAMIC_QUESTION (exampleData\<lparr>price := []\<rparr>)))
      = wizardAt DYNAMIC_QUESTION (exampleData\<lparr>price := []\<rparr>)"
    by blast
  have "location (data (wizardAt TECHNICAL_DETAILS (exampleData\<lparr>location := []\<rparr>))) = []"
    by (simp add: wizardAt_simps)
  with gated_transitions_refused [of "wizardAt TECHNICAL_DETAILS (exampleData\<lparr>location := []\<rparr>)" ?e 3 3]
  have c: "state (handleGenerate ?e 3 3 (wizardAt TECHNICAL_DETAILS (exampleData\<lparr>location := []\<rparr>)))
      = wizardAt TECHNICAL_DETAILS (exampleData\<lparr>location := []\<rparr>)
    \<and> calls (handleGenerate ?e 3 3 (wizardAt TECHNICAL_DETAILS (exampleData\<lparr>location := []\<rparr>))) = []"
    by blast
  from a b c show ?thesis by blast
qed

text \<open>
  C7. When \<open>generateCampaign\<close> rejects, the handler shows the error alert and ends in
  the state it awaited in, with the loading flag cleared: the step, the collected data
  and the results are those of the state the handler started from, so the wizard stays
  on its step and stores no result. When the image is null the service is not even
  called: the handler alerts in the same turn, and only the loading message differs from
  the state it started from once the flag is cleared.
\<close>

theorem generation_failure_keeps_step:
  "contactPhone (data s) \<noteq> [] \<and> location (data s) \<noteq> [] \<longrightarrow>
     (\<forall>img err. productImage (data s) = Some img
        \<and> fst (generateCampaign e (withImage (data s) (stripBase64Prefix img))) = Inl err \<longrightarrow>
          alerts (handleGenerate e n m s) = [generationFailed]
          \<and> state (handleGenerate e n m s) = (awaiting n s creatingMessage)\<lparr>isLoading := False\<rparr>
          \<and> step (state (handleGenerate e n m s)) = step s
          \<and> results (state (handleGenerate e n m s)) = results s
          \<and> data (state (handleGenerate e n m s)) = data s
          \<and> \<not> isLoading (state (handleGenerate e n m s)))
     \<and> (productImage (data s) = None \<longrightarrow>
          alerts (handleGenerate e n m s) = [generationFailed]
          \<and> calls (handleGenerate e n m s) = []
          \<and> state (handleGenerate e n m s)
              = s\<lparr>isLoading := False, loadingMessage := creatingMessage\<rparr>
          \<and> step (state (handleGenerate e n m s)) = step s
          \<and> results (state (handleGenerate e n m s)) = results s
          \<and> data (state (handleGenerate e n m s)) = data s
          \<and> progress (state (handleGenerate e n m s)) = progress s
          \<and> \<not> isLoading (state (handleGenerate e n m s)))"
proof (intro impI conjI allI)
  assume filled: "contactPhone (data s) \<noteq> [] \<and> location (data s) \<noteq> []"
  {
    fix img err
    assume rejected: "productImage (data s) = Some img
        \<and> fst (generateCampaign e (withImage (data s) (stripBase64Prefix img))) = Inl err"
    with filled
    have final: "state (handleGenerate e n m s) = (awaiting n s creatingMessage)\<lparr>isLoading := False\<rparr>"
      and shown: "alerts (handleGenerate e n m s) = [generationFailed]"
      by (simp_all add: generate_rejected)
    from shown show "alerts (handleGenerate e n m s) = [generationFailed]" .
    from final show "state (handleGenerate e n m s)
        = (awaiting n s creatingMessage)\<lparr>isLoading := False\<rparr>" .
    show "step (state (handleGenerate e n m s)) = step s"
      "results (state (handleGenerate e n m s)) = results s"
      "data (state (handleGenerate e n m s)) = data s"
      "\<not> isLoading (state (handleGenerate e n m s))"
      by (simp_all add: final awaiting_frame)
  }
  assume "productImage (data s) = None"
  with filled have sync: "handleGenerate e n m s =
           \<lparr>state = s\<lparr>isLoading := True, loadingMessage := creatingMessage\<rparr>\<lparr>isLoading := False\<rparr>,
            alerts = [generationFailed], calls = []\<rparr>"
    by (simp add: generate_without_image)
  show "alerts (handleGenerate e n m s) = [generationFailed]"
    "calls (handleGenerate e n m s) = []"
    "state (handleGenerate e n m s) = s\<lparr>isLoading := False, loadingMessage := creatingMessage\<rparr>"
    "step (state (handleGenerate e n m s)) = step s"
    "results (state (handleGenerate e n m s)) = results s"
    "data (state (handleGenerate e n m s)) = data s"
    "progress (state (handleGenerate e n m s)) = progress s"
    "\<not> isLoading (state (handleGenerate e n m s))"
    by (simp_all add: sync)
qed

theorem generation_failure_keeps_step_witness:
  "alerts (handleGenerate (exampleEnv [] silent) 3 0 (wizardAt TECHNICAL_DETAILS exampleData))
     = [generationFailed]
   \<and> step (state (handleGenerate (exampleEnv [] silent) 3 0 (wizardAt TECHNICAL_DETAILS exampleData)))
     = TECHNICAL_DETAILS
   \<and> results (state (handleGenerate (exampleEnv [] silent) 3 0 (wizardAt TECHNICAL_DETAILS exampleData)))
     = None
   \<and> data (state (handleGenerate (exampleEnv [] silent) 3 0 (wizardAt TECHNICAL_DETAILS exampleData)))
     = exampleData
   \<and> \<not> isLoading (state (handleGenerate (exampleEnv [] silent) 3 0 (wizardAt TECHNICAL_DETAILS exampleData)))
   \<and> progress (state (handleGenerate (exampleEnv [] silent) 3 0
        (wizardAt TECHNICAL_DETAILS (exampleData\<lparr>productImage := None\<rparr>)))) = 0
   \<and> alerts (handleGenerate (exampleEnv [] silent) 3 0
        (wizardAt TECHNICAL_DETAILS (exampleData\<lparr>productImage := None\<rparr>))) = [generationFailed]"
proof -
  let ?s = "wizardAt TECHNICAL_DETAILS exampleData"
  let ?t = "wizardAt TECHNICAL_DETAILS (exampleData\<lparr>productImage := None\<rparr>)"
  let ?e = "exampleEnv [] silent"
  have filled: "contactPhone (data ?s) \<noteq> [] \<and> location (data ?s) \<noteq> []"
    by (simp add: wizardAt_simps exampleData_simps tenisInput_def js_def)
  have photo: "productImage (data ?s) = Some (js ''data:image/jpeg;base64,/9j/4AAQ'')"
    by (simp add: wizardAt_simps exampleData_simps)
  have rejected: "fst (generateCampaign ?e (withImage (data ?s)
          (stripBase64Prefix (js ''data:image/jpeg;base64,/9j/4AAQ'')))) = Inl apiKeyMissing"
    by (simp add: campaign_unconfigured exampleEnv_simps)
  have filled': "contactPhone (data ?t) \<noteq> [] \<and> location (data ?t) \<noteq> []"
    by (simp add: wizardAt_simps exampleData_simps tenisInput_def js_def)
  have no_photo: "productImage (data ?t) = None"
    by (simp add: wizardAt_simps)
  from generation_failure_keeps_step [of ?s ?e 3 0] filled photo rejected
  have async: "alerts (handleGenerate ?e 3 0 ?s) = [generationFailed]
     \<and> step (state (handleGenerate ?e 3 0 ?s)) = step ?s
     \<and> results (state (handleGenerate ?e 3 0 ?s)) = results ?s
     \<and> data (state (handleGenerate ?e 3 0 ?s)) = data ?s
     \<and> \<not> isLoading (state (handleGenerate ?e 3 0 ?s))"
    by blast
  from generation_failure_keeps_step [of ?t ?e 3 0] filled' no_photo
  have sync: "alerts (handleGenerate ?e 3 0 ?t) = [generationFailed]
     \<and> progress (state (handleGenerate ?e 3 0 ?t)) = progress ?t"
    by blast
  from async sync show ?thesis
    by (simp add: wizardAt_simps)
qed




end
